theory Spec2Isabelle
  imports Complex_Main "HOL-Library.Log_Nat"
begin

section \<open>Diabetes risk checker: the core of \<^verbatim>\<open>app.py\<close>\<close>

text \<open>
  The program is one Python script: constant tables, four helper functions and the
  handler that runs when the form is submitted. Python ints are modelled as
  \<^typ>\<open>int\<close>, \<^verbatim>\<open>None\<close>-able values as \<^typ>\<open>'a option\<close>. A Python \<^verbatim>\<open>str\<close> is
  a sequence of Unicode code points, so a string is the list of its code points; every
  literal below is the literal of the given source line.

  The numbers the handler computes with are binary64 floats; they are modelled with
  their rounding (section on floats below). The scores of the label table and the
  probabilities returned by the classifier are only compared with constants or passed
  on, and are read as the decimal numbers written in the source; in the feature array
  a score is the float its literal denotes.
\<close>

type_synonym pystr = "nat list"

subsection \<open>Exceptions\<close>

datatype exn =
    KeyError pystr
  | IndexError
  | ZeroDivisionError
  | OverflowError
  | ClassifierError

subsection \<open>Binary64 floats\<close>

text \<open>
  A float is a finite number, an infinity or NaN. The two zeros compare equal in Python
  and are both \<open>Fin 0\<close>. \<open>Fin x\<close> is a float when \<open>x\<close> is a binary64 number; the
  operations below round their results to such numbers.
\<close>

datatype pyfloat = Fin real | PInf | NInf | NaN

text \<open>Python's \<^verbatim>\<open><\<close>, \<^verbatim>\<open><=\<close> and \<^verbatim>\<open>>=\<close> on floats: every comparison with NaN is false.\<close>

fun py_lt :: "pyfloat \<Rightarrow> pyfloat \<Rightarrow> bool" where
  "py_lt (Fin x) (Fin y) = (x < y)"
| "py_lt (Fin x) PInf = True"
| "py_lt NInf (Fin y) = True"
| "py_lt NInf PInf = True"
| "py_lt _ _ = False"

definition py_le :: "pyfloat \<Rightarrow> pyfloat \<Rightarrow> bool" where
  "py_le a b = (py_lt a b \<or> (a = b \<and> a \<noteq> NaN))"

definition py_ge :: "pyfloat \<Rightarrow> pyfloat \<Rightarrow> bool" where
  "py_ge a b = py_le b a"

text \<open>
  Rounding a real to the nearest integer, a tie going to the even neighbour: the
  rounding of binary64 arithmetic and of \<^verbatim>\<open>round\<close>.
\<close>

definition round_half_even :: "real \<Rightarrow> int" where
  "round_half_even x =
     (let f = \<lfloor>x\<rfloor>; d = x - of_int f
      in if d < 1 / 2 then f
         else if 1 / 2 < d then f + 1
         else if even f then f else f + 1)"

text \<open>The binary exponent of a positive real: \<open>2\<^sup>e \<le> x < 2\<^sup>e\<^sup>+\<^sup>1\<close>.\<close>

definition exponent :: "real \<Rightarrow> int" where
  "exponent x = (if 1 \<le> x then bitlen \<lfloor>x\<rfloor> - 1 else - bitlen (\<lceil>1 / x\<rceil> - 1))"

text \<open>
  The nearest binary64 number: 53 significant bits, a tie going to the even
  significand; below \<open>2\<^sup>-\<^sup>1\<^sup>0\<^sup>2\<^sup>2\<close> the spacing stays that of the least normal exponent
  (subnormal numbers).
\<close>

definition rnd64 :: "real \<Rightarrow> real" where
  "rnd64 x =
     (if x = 0 then 0
      else let u = 2 powi (max (exponent \<bar>x\<bar>) (- 1022) - 52)
           in of_int (round_half_even (x / u)) * u)"

text \<open>A result that rounds to \<open>2\<^sup>1\<^sup>0\<^sup>2\<^sup>4\<close> or beyond overflows to an infinity.\<close>

definition fl64 :: "real \<Rightarrow> pyfloat" where
  "fl64 x =
     (let r = rnd64 x
      in if \<bar>r\<bar> < 2 ^ 1024 then Fin r else if 0 < x then PInf else NInf)"

subsection \<open>Python and NumPy arithmetic used by the script\<close>

text \<open>A number handed to \<^verbatim>\<open>clip_value\<close> is a Python int or a float.\<close>

datatype pynum = PyInt int | PyFloat pyfloat

text \<open>
  \<^verbatim>\<open>float(x)\<close>: an int becomes the nearest float and raises \<^verbatim>\<open>OverflowError\<close> when
  it is too large for one.
\<close>

definition py_float :: "pynum \<Rightarrow> exn + pyfloat" where
  "py_float v =
     (case v of
        PyFloat f \<Rightarrow> Inr f
      | PyInt n \<Rightarrow>
          (case fl64 (of_int n) of
             Fin r \<Rightarrow> Inr (Fin r)
           | _ \<Rightarrow> Inl OverflowError))"

text \<open>\<^verbatim>\<open>np.maximum\<close> and \<^verbatim>\<open>np.minimum\<close> on floats: a NaN operand is the result.\<close>

definition np_maximum :: "pyfloat \<Rightarrow> pyfloat \<Rightarrow> pyfloat" where
  "np_maximum a b = (if a = NaN then a else if b = NaN then b else if py_lt a b then b else a)"

definition np_minimum :: "pyfloat \<Rightarrow> pyfloat \<Rightarrow> pyfloat" where
  "np_minimum a b = (if a = NaN then a else if b = NaN then b else if py_lt b a then b else a)"

text \<open>
  \<^verbatim>\<open>np.clip(a, a_min, a_max)\<close> is \<^verbatim>\<open>np.minimum(a_max, np.maximum(a, a_min))\<close>. Three
  ints are clipped as integers and the result is an integer; as soon as one argument
  is a float, all three are taken as floats. (Ints are those NumPy holds as 64-bit
  integers, as the bounded number inputs of the form deliver them.)
\<close>

definition np_clip :: "pynum \<Rightarrow> pynum \<Rightarrow> pynum \<Rightarrow> exn + pynum" where
  "np_clip a a_min a_max =
     (case (a, a_min, a_max) of
        (PyInt v, PyInt lo, PyInt hi) \<Rightarrow> Inr (PyInt (min hi (max v lo)))
      | _ \<Rightarrow>
          (case (py_float a, py_float a_min, py_float a_max) of
             (Inr v, Inr lo, Inr hi) \<Rightarrow> Inr (PyFloat (np_minimum hi (np_maximum v lo)))
           | _ \<Rightarrow> Inl OverflowError))"

text \<open>
  Float division: a zero divisor raises \<^verbatim>\<open>ZeroDivisionError\<close>; otherwise the
  quotient is rounded, with the IEEE results for infinities and NaN.
\<close>

definition py_truediv :: "pyfloat \<Rightarrow> pyfloat \<Rightarrow> exn + pyfloat" where
  "py_truediv a b =
     (case b of
        Fin y \<Rightarrow>
          if y = 0 then Inl ZeroDivisionError
          else (case a of
                  Fin x \<Rightarrow> Inr (fl64 (x / y))
                | PInf \<Rightarrow> Inr (if 0 < y then PInf else NInf)
                | NInf \<Rightarrow> Inr (if 0 < y then NInf else PInf)
                | NaN \<Rightarrow> Inr NaN)
      | NaN \<Rightarrow> Inr NaN
      | _ \<Rightarrow> (case a of Fin x \<Rightarrow> Inr (Fin 0) | _ \<Rightarrow> Inr NaN))"

text \<open>
  \<^verbatim>\<open>x ** 2\<close> on a float: the square, rounded (the C library's \<^verbatim>\<open>pow\<close>, taken as
  correctly rounded for the exponent 2); Python raises \<^verbatim>\<open>OverflowError\<close> when a
  finite base gives an infinite result.
\<close>

definition py_pow2 :: "pyfloat \<Rightarrow> exn + pyfloat" where
  "py_pow2 a =
     (case a of
        Fin x \<Rightarrow> (case fl64 (x * x) of Fin r \<Rightarrow> Inr (Fin r) | _ \<Rightarrow> Inl OverflowError)
      | NaN \<Rightarrow> Inr NaN
      | _ \<Rightarrow> Inr PInf)"

text \<open>
  \<^verbatim>\<open>round(x, n)\<close> on a float: the decimal with \<open>n\<close> places nearest to \<open>x\<close>, a tie
  going to the even neighbour, and then the float nearest to that decimal. Infinities
  and NaN are returned as they are.
\<close>

definition py_round :: "pyfloat \<Rightarrow> nat \<Rightarrow> pyfloat" where
  "py_round a n =
     (case a of
        Fin x \<Rightarrow> fl64 (of_int (round_half_even (x * 10 ^ n)) / 10 ^ n)
      | _ \<Rightarrow> a)"

text \<open>An int placed in a float array becomes the nearest float.\<close>

definition np_float64 :: "int \<Rightarrow> pyfloat" where
  "np_float64 n = fl64 (of_int n)"

text \<open>Indexing a sequence out of range raises \<^verbatim>\<open>IndexError\<close>.\<close>

definition py_index :: "'a list \<Rightarrow> nat \<Rightarrow> exn + 'a" where
  "py_index xs i = (if i < length xs then Inr (xs ! i) else Inl IndexError)"

text \<open>Statements in sequence: the first exception ends the run.\<close>

definition then_do :: "exn + 'a \<Rightarrow> ('a \<Rightarrow> exn + 'b) \<Rightarrow> exn + 'b" where
  "then_do m f = (case m of Inl e \<Rightarrow> Inl e | Inr x \<Rightarrow> f x)"

subsection \<open>Constant tables (lines 12-36)\<close>

datatype range_key = K_age | K_glucose | K_blood | K_skin | K_insulin | K_bmi | K_weight | K_height

fun RANGES :: "range_key \<Rightarrow> pynum \<times> pynum" where
  "RANGES K_age = (PyInt 10, PyInt 100)"
| "RANGES K_glucose = (PyInt 40, PyInt 300)"
| "RANGES K_blood = (PyInt 40, PyInt 140)"
| "RANGES K_skin = (PyInt 5, PyInt 80)"
| "RANGES K_insulin = (PyInt 10, PyInt 400)"
| "RANGES K_bmi = (PyInt 10, PyInt 60)"
| "RANGES K_weight = (PyFloat (Fin 20), PyFloat (Fin 250))"
| "RANGES K_height = (PyFloat (Fin 100), PyFloat (Fin 220))"

datatype fallback_key = K_Insulin | K_SkinThickness

fun MEDIAN_FALLBACKS :: "fallback_key \<Rightarrow> pyfloat" where
  "MEDIAN_FALLBACKS K_Insulin = Fin 80"
| "MEDIAN_FALLBACKS K_SkinThickness = Fin 20"

definition label_no_history :: pystr where
  \<comment> \<open>line 31, 22 code points\<close>
  "label_no_history =
    [3652, 3617, 3656, 3617, 3637, 3611, 3619, 3632, 3623, 3633, 3605, 3636, 3651, 3609, 3588,
     3619, 3629, 3610, 3588, 3619, 3633, 3623]"

definition label_distant_relative :: pystr where
  \<comment> \<open>line 32, 31 code points\<close>
  "label_distant_relative =
    [3597, 3634, 3605, 3636, 3627, 3656, 3634, 3591, 32, 40, 3648, 3594, 3656, 3609, 32, 3611,
     3657, 3634, 47, 3609, 3657, 3634, 47, 3629, 3634, 41, 32, 3648, 3611, 3655, 3609]"

definition label_parent :: pystr where
  \<comment> \<open>line 33, 14 code points\<close>
  "label_parent =
    [3614, 3656, 3629, 3627, 3619, 3639, 3629, 3649, 3617, 3656, 3648, 3611, 3655, 3609]"

definition label_parent_siblings :: pystr where
  \<comment> \<open>line 34, 20 code points\<close>
  "label_parent_siblings =
    [3614, 3656, 3629, 3649, 3617, 3656, 32, 43, 32, 3614, 3637, 3656, 3609, 3657, 3629, 3591,
     3648, 3611, 3655, 3609]"

definition label_multiple_relatives :: pystr where
  \<comment> \<open>line 35, 20 code points\<close>
  "label_multiple_relatives =
    [3627, 3621, 3634, 3618, 3588, 3609, 3651, 3609, 3588, 3619, 3629, 3610, 3588, 3619, 3633,
     3623, 3648, 3611, 3655, 3609]"

text \<open>
  \<^verbatim>\<open>DPF_MAP\<close> is a dict literal: an association list in the order of the source, read
  with \<^const>\<open>map_of\<close>. Indexing a dict with a missing key raises \<^verbatim>\<open>KeyError\<close>
  (lines 133-134: \<^verbatim>\<open>dpf = DPF_MAP[dpf_label]\<close>).
\<close>

definition DPF_MAP :: "(pystr \<times> real) list" where
  "DPF_MAP =
    [(label_no_history, 5 / 100),
     (label_distant_relative, 5 / 10),
     (label_parent, 1),
     (label_parent_siblings, 2),
     (label_multiple_relatives, 25 / 10)]"

definition dpf_lookup :: "pystr \<Rightarrow> exn + real" where
  "dpf_lookup dpf_label =
     (case map_of DPF_MAP dpf_label of
        None \<Rightarrow> Inl (KeyError dpf_label)
      | Some v \<Rightarrow> Inr v)"

subsection \<open>Helpers (lines 51-86)\<close>

text \<open>Line 52: \<^verbatim>\<open>float(np.clip(v, minv, maxv))\<close>.\<close>

definition clip_value :: "pynum \<Rightarrow> pynum \<Rightarrow> pynum \<Rightarrow> exn + pyfloat" where
  "clip_value v minv maxv = then_do (np_clip v minv maxv) py_float"

definition tier_low :: pystr where
  \<comment> \<open>line 57, 3 code points\<close>
  "tier_low =
    [3605, 3656, 3635]"

definition msg_low :: pystr where
  \<comment> \<open>line 57, 43 code points\<close>
  "msg_low =
    [3588, 3623, 3634, 3617, 3648, 3626, 3637, 3656, 3618, 3591, 3605, 3656, 3635, 32, 3649,
     3605, 3656, 3588, 3623, 3619, 3604, 3641, 3649, 3621, 3626, 3640, 3586, 3616, 3634, 3614,
     3629, 3618, 3656, 3634, 3591, 3626, 3617, 3656, 3635, 3648, 3626, 3617, 3629]"

definition tier_medium :: pystr where
  \<comment> \<open>line 59, 7 code points\<close>
  "tier_medium =
    [3611, 3634, 3609, 3585, 3621, 3634, 3591]"

definition msg_medium :: pystr where
  \<comment> \<open>line 59, 59 code points\<close>
  "msg_medium =
    [3588, 3623, 3634, 3617, 3648, 3626, 3637, 3656, 3618, 3591, 3611, 3634, 3609, 3585, 3621,
     3634, 3591, 32, 8212, 32, 3649, 3609, 3632, 3609, 3635, 3605, 3619, 3623, 3592, 3626,
     3640, 3586, 3616, 3634, 3614, 3648, 3614, 3636, 3656, 3617, 3648, 3605, 3636, 3617, 3649,
     3621, 3632, 3611, 3619, 3633, 3610, 3614, 3620, 3605, 3636, 3585, 3619, 3619, 3617]"

definition tier_high :: pystr where
  \<comment> \<open>line 61, 3 code points\<close>
  "tier_high =
    [3626, 3641, 3591]"

definition msg_high :: pystr where
  \<comment> \<open>line 61, 68 code points\<close>
  "msg_high =
    [3588, 3623, 3634, 3617, 3648, 3626, 3637, 3656, 3618, 3591, 3626, 3641, 3591, 32, 8212,
     32, 3588, 3623, 3619, 3611, 3619, 3638, 3585, 3625, 3634, 3649, 3614, 3607, 3618, 3660,
     3649, 3621, 3632, 3605, 3619, 3623, 3592, 3648, 3621, 3639, 3629, 3604, 32, 40, 102, 97,
     115, 116, 105, 110, 103, 32, 103, 108, 117, 99, 111, 115, 101, 32, 47, 32, 72, 98, 65, 49,
     99, 41]"

definition risk_level_from_prob :: "real \<Rightarrow> pystr \<times> pystr" where
  "risk_level_from_prob p =
     (if p < 30 / 100 then (tier_low, msg_low)
      else if p < 60 / 100 then (tier_medium, msg_medium)
      else (tier_high, msg_high))"

definition advice_obesity :: pystr where
  \<comment> \<open>line 67, 120 code points\<close>
  "advice_obesity =
    [3609, 3657, 3635, 3627, 3609, 3633, 3585, 3648, 3585, 3636, 3609, 47, 3629, 3657, 3623,
     3609, 58, 32, 3649, 3609, 3632, 3609, 3635, 3621, 3604, 3609, 3657, 3635, 3627, 3609,
     3633, 3585, 3629, 3618, 3656, 3634, 3591, 3588, 3656, 3629, 3618, 3648, 3611, 3655, 3609,
     3588, 3656, 3629, 3618, 3652, 3611, 32, 40, 3611, 3619, 3633, 3610, 3629, 3634, 3627,
     3634, 3619, 32, 3588, 3640, 3617, 3611, 3619, 3636, 3617, 3634, 3603, 3649, 3588, 3621,
     3629, 3619, 3637, 32, 3649, 3621, 3632, 3629, 3629, 3585, 3585, 3635, 3621, 3633, 3591,
     3585, 3634, 3618, 3629, 3618, 3656, 3634, 3591, 3609, 3657, 3629, 3618, 32, 49, 53, 48,
     32, 3609, 3634, 3607, 3637, 47, 3626, 3633, 3611, 3604, 3634, 3627, 3660, 41]"

definition advice_overweight :: pystr where
  \<comment> \<open>line 69, 75 code points\<close>
  "advice_overweight =
    [3609, 3657, 3635, 3627, 3609, 3633, 3585, 3648, 3585, 3636, 3609, 58, 32, 3614, 3636,
     3592, 3634, 3619, 3603, 3634, 3611, 3619, 3633, 3610, 3614, 3620, 3605, 3636, 3585, 3619,
     3619, 3617, 3585, 3634, 3619, 3585, 3636, 3609, 3649, 3621, 3632, 3629, 3629, 3585, 3585,
     3635, 3621, 3633, 3591, 3585, 3634, 3618, 3648, 3614, 3639, 3656, 3629, 3652, 3617, 3656,
     3651, 3627, 3657, 3648, 3614, 3636, 3656, 3617, 3617, 3634, 3585, 3586, 3638, 3657, 3609]"

definition advice_healthy_weight :: pystr where
  \<comment> \<open>line 71, 58 code points\<close>
  "advice_healthy_weight =
    [3609, 3657, 3635, 3627, 3609, 3633, 3585, 3651, 3609, 3648, 3585, 3603, 3601, 3660, 3604,
     3637, 58, 32, 3619, 3633, 3585, 3625, 3634, 3619, 3632, 3604, 3633, 3610, 3588, 3623,
     3634, 3617, 3649, 3586, 3655, 3591, 3649, 3619, 3591, 3649, 3621, 3632, 3650, 3616, 3594,
     3609, 3634, 3585, 3634, 3619, 3607, 3637, 3656, 3626, 3617, 3604, 3640, 3621]"

definition advice_glucose_urgent :: pystr where
  \<comment> \<open>line 74, 47 code points\<close>
  "advice_glucose_urgent =
    [3588, 3656, 3634, 3609, 3657, 3635, 3605, 3634, 3621, 3626, 3641, 3591, 3617, 3634, 3585,
     32, 8212, 32, 3588, 3623, 3619, 3619, 3637, 3610, 3605, 3619, 3623, 3592, 3648, 3621,
     3639, 3629, 3604, 3649, 3621, 3632, 3611, 3619, 3638, 3585, 3625, 3634, 3649, 3614, 3607,
     3618, 3660]"

definition advice_glucose_prediabetes :: pystr where
  \<comment> \<open>line 76, 65 code points\<close>
  "advice_glucose_prediabetes =
    [3588, 3656, 3634, 3609, 3657, 3635, 3605, 3634, 3621, 3626, 3641, 3591, 32, 40, 3629,
     3634, 3592, 3648, 3611, 3655, 3609, 32, 112, 114, 101, 45, 100, 105, 97, 98, 101, 116,
     101, 115, 41, 32, 8212, 32, 3649, 3609, 3632, 3609, 3635, 3611, 3619, 3633, 3610, 3614,
     3620, 3605, 3636, 3585, 3619, 3619, 3617, 3649, 3621, 3632, 3605, 3619, 3623, 3592, 3595,
     3657, 3635]"

definition advice_glucose_normal :: pystr where
  \<comment> \<open>line 78, 32 code points\<close>
  "advice_glucose_normal =
    [3588, 3656, 3634, 3609, 3657, 3635, 3605, 3634, 3621, 3651, 3609, 3594, 3656, 3623, 3591,
     3611, 3585, 3605, 3636, 32, 40, 3605, 3634, 3617, 3607, 3637, 3656, 3585, 3619, 3629,
     3585, 41]"

definition advice_blood_pressure :: pystr where
  \<comment> \<open>line 80, 72 code points\<close>
  "advice_blood_pressure =
    [3588, 3623, 3634, 3617, 3604, 3633, 3609, 3588, 3656, 3629, 3609, 3586, 3657, 3634, 3591,
     3626, 3641, 3591, 58, 32, 3588, 3623, 3619, 3605, 3636, 3604, 3605, 3634, 3617, 3588,
     3623, 3634, 3617, 3604, 3633, 3609, 3649, 3621, 3632, 3611, 3619, 3633, 3610, 3614, 3620,
     3605, 3636, 3585, 3619, 3619, 3617, 32, 40, 3621, 3604, 3648, 3588, 3655, 3617, 47, 3629,
     3629, 3585, 3585, 3635, 3621, 3633, 3591, 3585, 3634, 3618, 41]"

definition advice_data_completeness :: pystr where
  \<comment> \<open>line 82, 98 code points\<close>
  "advice_data_completeness =
    [3586, 3657, 3629, 3617, 3641, 3621, 3629, 3636, 3609, 3595, 3641, 3621, 3636, 3609, 47,
     3588, 3623, 3634, 3617, 3627, 3609, 3634, 3612, 3636, 3623, 3627, 3609, 3633, 3591, 3652,
     3617, 3656, 3588, 3619, 3610, 32, 8212, 32, 3627, 3634, 3585, 3605, 3657, 3629, 3591,
     3585, 3634, 3619, 3585, 3634, 3619, 3611, 3619, 3632, 3648, 3617, 3636, 3609, 3621, 3632,
     3648, 3629, 3637, 3618, 3604, 32, 3588, 3623, 3619, 3605, 3619, 3623, 3592, 3607, 3634,
     3591, 3585, 3634, 3619, 3649, 3614, 3607, 3618, 3660, 3648, 3614, 3639, 3656, 3629, 3627,
     3634, 3588, 3656, 3634, 3592, 3619, 3636, 3591]"

definition advice_age :: pystr where
  \<comment> \<open>line 85, 77 code points\<close>
  "advice_age =
    [3629, 3634, 3618, 3640, 3617, 3634, 3585, 3585, 3623, 3656, 3634, 32, 54, 48, 32, 3611,
     3637, 32, 8212, 32, 3588, 3623, 3619, 3605, 3619, 3623, 3592, 3626, 3640, 3586, 3616,
     3634, 3614, 3648, 3611, 3655, 3609, 3611, 3619, 3632, 3592, 3635, 3588, 3623, 3634, 3617,
     3648, 3626, 3637, 3656, 3618, 3591, 3650, 3619, 3588, 3619, 3632, 3610, 3610, 3648, 3617,
     3605, 3634, 3610, 3629, 3621, 3636, 3595, 3638, 3617, 3626, 3641, 3591, 3586, 3638, 3657,
     3609]"

text \<open>
  \<^verbatim>\<open>health_advice\<close> appends to a local list; each \<^verbatim>\<open>let\<close> below is one
  \<^verbatim>\<open>if\<close> statement of the source, in the source's order. The handler calls it with
  floats for glucose, BMI and blood pressure and with the int age.
\<close>

definition health_advice ::
  "pyfloat option \<Rightarrow> pyfloat option \<Rightarrow> pyfloat option \<Rightarrow> int option \<Rightarrow> bool \<Rightarrow> bool \<Rightarrow> pystr list" where
  "health_advice glucose bmi blood age insulin_provided skin_provided =
     (let advice = [];
          advice = (case bmi of
                      None \<Rightarrow> advice
                    | Some b \<Rightarrow>
                        if py_ge b (Fin 30) then advice @ [advice_obesity]
                        else if py_ge b (Fin 25) then advice @ [advice_overweight]
                        else advice @ [advice_healthy_weight]);
          advice = (case glucose of
                      None \<Rightarrow> advice
                    | Some g \<Rightarrow>
                        if py_ge g (Fin 200) then advice @ [advice_glucose_urgent]
                        else if py_ge g (Fin 140) then advice @ [advice_glucose_prediabetes]
                        else advice @ [advice_glucose_normal]);
          advice = (case blood of
                      None \<Rightarrow> advice
                    | Some bp \<Rightarrow>
                        if py_ge bp (Fin 120) then advice @ [advice_blood_pressure] else advice);
          advice = (if \<not> insulin_provided \<or> \<not> skin_provided
                    then advice @ [advice_data_completeness] else advice);
          advice = (case age of
                      None \<Rightarrow> advice
                    | Some a \<Rightarrow> if a \<ge> 60 then advice @ [advice_age] else advice)
      in advice)"

subsection \<open>The classifier artifact (lines 41-49, 97, 173-183)\<close>

text \<open>
  The artifact is an external object. What the script uses of it: whether the file
  loads, whether the object has \<^verbatim>\<open>predict_proba\<close>, and what the call returns or
  raises. A model with \<^verbatim>\<open>predict_proba\<close> is asked for class probabilities (one
  row per input row); any other model is asked for labels with \<^verbatim>\<open>predict\<close>.
\<close>

datatype classifier =
    With_predict_proba "pyfloat list list \<Rightarrow> exn + real list list"
  | Only_predict "pyfloat list list \<Rightarrow> exn + real list"

datatype artifact = File_absent | File_corrupt | File_ok classifier

datatype load_error = Not_found | Load_failed

definition load_model :: "artifact \<Rightarrow> classifier option \<times> load_error option" where
  "load_model a =
     (case a of
        File_ok m \<Rightarrow> (Some m, None)
      | File_corrupt \<Rightarrow> (None, Some Load_failed)
      | File_absent \<Rightarrow> (None, Some Not_found))"

definition predict_prob :: "classifier \<Rightarrow> pyfloat list list \<Rightarrow> exn + real" where
  "predict_prob model feature_vector =
     (case model of
        With_predict_proba predict_proba \<Rightarrow>
          (case predict_proba feature_vector of
             Inl e \<Rightarrow> Inl e
           | Inr out \<Rightarrow>
               (case py_index out 0 of
                  Inl e \<Rightarrow> Inl e
                | Inr row \<Rightarrow> py_index row 1))
      | Only_predict predict \<Rightarrow>
          (case predict feature_vector of
             Inl e \<Rightarrow> Inl e
           | Inr out \<Rightarrow> py_index out 0))"

subsection \<open>The form (lines 103-136)\<close>

text \<open>
  The values the widgets hand to the script. The number inputs with integer bounds
  return ints, those with float bounds finite floats; an unticked checkbox leaves the
  optional value \<^verbatim>\<open>None\<close>.
\<close>

record form_input =
  in_age :: int
  in_pregnancies :: int
  in_weight :: real
  in_height :: real
  in_glucose :: int
  in_blood :: int
  in_skin :: "int option"
  in_insulin :: "int option"
  in_dpf_label :: pystr

text \<open>The form as it is first shown: every widget at its \<^verbatim>\<open>value=\<close> default.\<close>

definition default_form :: form_input where
  "default_form =
     \<lparr>in_age = 40, in_pregnancies = 0, in_weight = 70, in_height = 170,
      in_glucose = 100, in_blood = 80, in_skin = None, in_insulin = None,
      in_dpf_label = label_no_history\<rparr>"

subsection \<open>The submit handler (lines 138-217)\<close>

text \<open>The local variables of the handler once line 156 has run.\<close>

record locals =
  v_glucose :: pyfloat
  v_blood :: pyfloat
  v_weight :: pyfloat
  v_height :: pyfloat
  v_bmi :: pyfloat
  v_age :: int
  v_insulin_used :: pyfloat
  v_skin_used :: pyfloat
  v_insulin_provided_flag :: bool
  v_skin_provided_flag :: bool
  v_dpf :: real
  v_feature_vector :: "pyfloat list list"

text \<open>Lines 140-156, one \<^const>\<open>then_do\<close> for each statement that can raise.\<close>

definition prepare :: "form_input \<Rightarrow> real \<Rightarrow> exn + locals" where
  "prepare inp dpf =
     then_do (clip_value (PyInt (in_glucose inp)) (fst (RANGES K_glucose)) (snd (RANGES K_glucose)))
       (\<lambda>glucose.
     then_do (clip_value (PyInt (in_blood inp)) (fst (RANGES K_blood)) (snd (RANGES K_blood)))
       (\<lambda>blood.
     then_do (clip_value (PyFloat (Fin (in_weight inp))) (fst (RANGES K_weight)) (snd (RANGES K_weight)))
       (\<lambda>weight.
     then_do (clip_value (PyFloat (Fin (in_height inp))) (fst (RANGES K_height)) (snd (RANGES K_height)))
       (\<lambda>height.
     then_do (py_truediv height (Fin 100))
       (\<lambda>height_m.
     then_do (py_pow2 height_m)
       (\<lambda>height_m2.
     then_do (py_truediv weight height_m2)
       (\<lambda>quotient.
     let bmi = py_round quotient 2 in
     then_do (clip_value (PyFloat bmi) (fst (RANGES K_bmi)) (snd (RANGES K_bmi)))
       (\<lambda>bmi.
     let insulin_used = (case in_insulin inp of
                           Some i \<Rightarrow> PyInt i
                         | None \<Rightarrow> PyFloat (MEDIAN_FALLBACKS K_Insulin));
         skin_used = (case in_skin inp of
                        Some k \<Rightarrow> PyInt k
                      | None \<Rightarrow> PyFloat (MEDIAN_FALLBACKS K_SkinThickness));
         insulin_provided_flag = (in_insulin inp \<noteq> None);
         skin_provided_flag = (in_skin inp \<noteq> None)
     in
     then_do (clip_value insulin_used (fst (RANGES K_insulin)) (snd (RANGES K_insulin)))
       (\<lambda>insulin_used.
     then_do (clip_value skin_used (fst (RANGES K_skin)) (snd (RANGES K_skin)))
       (\<lambda>skin_used.
     let feature_vector =
           [[glucose, bmi, np_float64 (in_age inp), blood, insulin_used, fl64 dpf, skin_used]]
     in Inr \<lparr>v_glucose = glucose, v_blood = blood, v_weight = weight,
             v_height = height, v_bmi = bmi, v_age = in_age inp,
             v_insulin_used = insulin_used, v_skin_used = skin_used,
             v_insulin_provided_flag = insulin_provided_flag,
             v_skin_provided_flag = skin_provided_flag, v_dpf = dpf,
             v_feature_vector = feature_vector\<rparr>))))))))))"

text \<open>
  What the handler does that can be seen from outside, in the order it does it: the
  construction of the feature array, the calls of the classifier and the calls that
  put something on the page. Fixed headings and notes are named by their place; the
  texts computed from the inputs are carried in full.
\<close>

record summary =
  s_Glucose :: pyfloat
  s_BMI :: pyfloat
  s_Age :: int
  s_BloodPressure :: pyfloat
  s_Insulin_used :: pyfloat
  s_DPF :: real
  s_SkinThickness_used :: pyfloat
  s_Insulin_provided :: bool
  s_Skin_provided :: bool

datatype level = Success | Warning | Error

datatype extra_line = See_doctor | Doctor_guidance | Adjust_diet | Start_exercise | Keep_habits

datatype event =
    Np_array "pyfloat list list"
  | St_subheader_summary
  | St_write_summary summary
  | St_error_no_model
  | Call_predict_proba "pyfloat list list"
  | Call_predict "pyfloat list list"
  | St_markdown_result
  | St_metric real
  | St_banner level pystr
  | St_markdown_advice
  | St_write pystr
  | St_markdown_extra
  | St_write_extra extra_line
  | St_info_optional
  | St_error_predict exn

definition summary_of :: "locals \<Rightarrow> summary" where
  "summary_of l =
     \<lparr>s_Glucose = v_glucose l, s_BMI = v_bmi l, s_Age = v_age l,
      s_BloodPressure = v_blood l, s_Insulin_used = v_insulin_used l, s_DPF = v_dpf l,
      s_SkinThickness_used = v_skin_used l,
      s_Insulin_provided = v_insulin_provided_flag l,
      s_Skin_provided = v_skin_provided_flag l\<rparr>"

definition banner_prefix :: pystr where
  \<comment> \<open>line 189, 17 code points\<close>
  "banner_prefix =
    [3619, 3632, 3604, 3633, 3610, 3588, 3623, 3634, 3617, 3648, 3626, 3637, 3656, 3618, 3591,
     58, 32]"

definition banner_sep :: pystr where
  \<comment> \<open>line 189, 3 code points\<close>
  "banner_sep =
    [32, 8212, 32]"

definition bullet :: pystr where
  \<comment> \<open>line 199, 2 code points\<close>
  "bullet =
    [45, 32]"

text \<open>Lines 184-214: what is shown once the classifier has returned \<open>prob\<close>.\<close>

definition render :: "real \<Rightarrow> locals \<Rightarrow> event list" where
  "render prob l =
     (let (risk_label, risk_msg) = risk_level_from_prob prob;
          text = banner_prefix @ risk_label @ banner_sep @ risk_msg;
          banner = (if risk_label = tier_low then St_banner Success text
                    else if risk_label = tier_medium then St_banner Warning text
                    else St_banner Error text);
          adv_list = health_advice (Some (v_glucose l)) (Some (v_bmi l)) (Some (v_blood l))
                       (Some (v_age l)) (v_insulin_provided_flag l) (v_skin_provided_flag l);
          extra = (if prob \<ge> 6 / 10 then [St_write_extra See_doctor, St_write_extra Doctor_guidance]
                   else if prob \<ge> 3 / 10 then [St_write_extra Adjust_diet, St_write_extra Start_exercise]
                   else [St_write_extra Keep_habits]);
          note = (if \<not> v_insulin_provided_flag l \<or> \<not> v_skin_provided_flag l
                  then [St_info_optional] else [])
      in [St_markdown_result, St_metric prob, banner, St_markdown_advice]
         @ map (\<lambda>a. St_write (bullet @ a)) adv_list
         @ [St_markdown_extra] @ extra @ note)"

text \<open>Lines 173-217: the branch on the model, the classifier call inside \<^verbatim>\<open>try\<close>.\<close>

definition predict_block :: "classifier option \<Rightarrow> locals \<Rightarrow> event list" where
  "predict_block model l =
     (case model of
        None \<Rightarrow> [St_error_no_model]
      | Some m \<Rightarrow>
          (case m of
             With_predict_proba f \<Rightarrow> Call_predict_proba (v_feature_vector l)
           | Only_predict f \<Rightarrow> Call_predict (v_feature_vector l))
          # (case predict_prob m (v_feature_vector l) of
               Inl e \<Rightarrow> [St_error_predict e]
             | Inr prob \<Rightarrow> render prob l))"

definition submit_handler :: "classifier option \<Rightarrow> form_input \<Rightarrow> real \<Rightarrow> exn + event list" where
  "submit_handler model inp dpf =
     (case prepare inp dpf of
        Inl e \<Rightarrow> Inl e
      | Inr l \<Rightarrow>
          Inr ([Np_array (v_feature_vector l), St_subheader_summary,
                St_write_summary (summary_of l)]
               @ predict_block model l))"

text \<open>
  One run of the script: the artifact is loaded, the selected label is looked up (line
  134, on every run), and the handler runs when the button was pressed.
\<close>

definition run_script :: "artifact \<Rightarrow> form_input \<Rightarrow> bool \<Rightarrow> exn + event list" where
  "run_script a inp submit =
     (let (model, model_err) = load_model a
      in case dpf_lookup (in_dpf_label inp) of
           Inl e \<Rightarrow> Inl e
         | Inr dpf \<Rightarrow> if submit then submit_handler model inp dpf else Inr [])"

subsection \<open>Reading a trace\<close>

text \<open>The arrays the classifier was called with, in the order of the calls.\<close>

fun classifier_input :: "event \<Rightarrow> pyfloat list list option" where
  "classifier_input (Call_predict_proba fv) = Some fv"
| "classifier_input (Call_predict fv) = Some fv"
| "classifier_input _ = None"

definition classifier_inputs :: "event list \<Rightarrow> pyfloat list list list" where
  "classifier_inputs tr = List.map_filter classifier_input tr"

text \<open>
  The events that show a risk assessment: the probability (line 187), the tier with its
  message (lines 188-193) and the advice lines (line 199).
\<close>

fun is_assessment :: "event \<Rightarrow> bool" where
  "is_assessment (St_metric p) = True"
| "is_assessment (St_banner lv t) = True"
| "is_assessment (St_write a) = True"
| "is_assessment _ = False"

subsection \<open>Two formulas for the BMI\<close>

text \<open>
  The number line 144 computes from a weight and a height, as one expression: each
  float operation rounds its result. (That the handler computes this number is
  \<open>prepare_eq\<close> below.)
\<close>

definition float_quotient :: "real \<Rightarrow> real \<Rightarrow> real" where
  "float_quotient w h = rnd64 (w / rnd64 (rnd64 (h / 100) * rnd64 (h / 100)))"

definition float_bmi :: "real \<Rightarrow> real \<Rightarrow> real" where
  "float_bmi w h = rnd64 (of_int (round_half_even (float_quotient w h * 10 ^ 2)) / 10 ^ 2)"


section \<open>Auxiliary facts\<close>

subsection \<open>Rounding to an integer\<close>

lemma round_half_even_near:
  assumes "\<bar>x - of_int n\<bar> < 1 / 2"
  shows "round_half_even x = n"
proof (cases "of_int n \<le> x")
  case True
  with assms have "\<lfloor>x\<rfloor> = n" by (intro floor_unique) auto
  with assms True show ?thesis by (simp add: round_half_even_def Let_def)
next
  case False
  with assms have f: "\<lfloor>x\<rfloor> = n - 1" by (intro floor_unique) auto
  from assms False have "1 / 2 < x - of_int (n - 1)" by auto
  with f show ?thesis by (simp add: round_half_even_def Let_def)
qed

lemma round_half_even_of_int: "round_half_even (of_int n) = n"
  using round_half_even_near [of "of_int n" n] by simp


lemma round_half_even_ge: "of_int N \<le> x \<Longrightarrow> N \<le> round_half_even x"
proof -
  assume "of_int N \<le> x"
  then have "N \<le> \<lfloor>x\<rfloor>" by (simp add: le_floor_iff)
  then show ?thesis by (auto simp add: round_half_even_def Let_def)
qed

lemma round_half_even_le: "x \<le> of_int N \<Longrightarrow> round_half_even x \<le> N"
proof (cases "x = of_int N")
  case True
  then show ?thesis by (simp add: round_half_even_of_int)
next
  case False
  assume "x \<le> of_int N"
  with False have "x < of_int N" by simp
  then have "\<lfloor>x\<rfloor> < N" by (simp add: floor_less_iff)
  then show ?thesis by (auto simp add: round_half_even_def Let_def)
qed

subsection \<open>The binary exponent\<close>

lemma exponent_bounds:
  assumes "0 < x"
  shows "2 powi exponent x \<le> x" and "x < 2 powi (exponent x + 1)"
proof -
  have "2 powi exponent x \<le> x \<and> x < 2 powi (exponent x + 1)"
  proof (cases "1 \<le> x")
    case True
    define m where "m = \<lfloor>x\<rfloor>"
    from True have m: "0 < m" by (simp add: m_def)
    from bitlen_bounds [OF m]
    have lo: "2 ^ nat (bitlen m - 1) \<le> m" and hi: "m < 2 ^ nat (bitlen m)" by simp_all
    from m have b: "1 \<le> bitlen m" by (auto simp: bitlen_alt_def)
    have e: "exponent x = bitlen m - 1" using True by (simp add: exponent_def m_def)
    from lo have "(2::real) ^ nat (bitlen m - 1) \<le> of_int m"
      by (metis of_int_le_iff of_int_numeral of_int_power)
    also have "\<dots> \<le> x" by (simp add: m_def)
    finally have 1: "2 powi exponent x \<le> x" using b by (simp add: e power_int_nonneg_exp)
    from hi have "m + 1 \<le> 2 ^ nat (bitlen m)" by simp
    then have "of_int (m + 1) \<le> (2::real) ^ nat (bitlen m)"
      by (metis of_int_le_iff of_int_numeral of_int_power)
    moreover have "x < of_int (m + 1)" by (simp add: m_def)
    ultimately have "x < 2 ^ nat (bitlen m)" by linarith
    then have 2: "x < 2 powi (exponent x + 1)" using b by (simp add: e power_int_nonneg_exp)
    from 1 2 show ?thesis ..
  next
    case False
    define y where "y = 1 / x"
    define c where "c = \<lceil>y\<rceil>"
    from False assms have y1: "1 < y" by (simp add: y_def)
    then have c2: "2 \<le> c" unfolding c_def by linarith
    then have m: "0 < c - 1" by simp
    from bitlen_bounds [OF m]
    have lo: "2 ^ nat (bitlen (c - 1) - 1) \<le> c - 1" and hi: "c - 1 < 2 ^ nat (bitlen (c - 1))"
      by simp_all
    from m have b: "1 \<le> bitlen (c - 1)" by (auto simp: bitlen_alt_def)
    define b' where "b' = bitlen (c - 1)"
    have e: "exponent x = - b'" using False by (simp add: exponent_def c_def y_def b'_def)
    have xy: "1 / y = x" using assms by (simp add: y_def)
    have p1: "2 powi (- b') = 1 / (2::real) ^ nat b'"
      using b by (simp add: b'_def power_int_minus_divide power_int_nonneg_exp)
    have p2: "2 powi (- (b' - 1)) = 1 / (2::real) ^ nat (b' - 1)"
      using b by (simp only: power_int_minus_divide) (simp add: b'_def power_int_nonneg_exp)
    from hi have "c \<le> 2 ^ nat b'" by (simp add: b'_def)
    then have "of_int c \<le> (2::real) ^ nat b'"
      by (metis of_int_le_iff of_int_numeral of_int_power)
    moreover have "y \<le> of_int c" by (simp add: c_def)
    ultimately have "y \<le> 2 ^ nat b'" by linarith
    with y1 have "1 / 2 ^ nat b' \<le> 1 / y" by (simp add: frac_le)
    then have 1: "2 powi exponent x \<le> x"
      by (simp only: e p1 xy)
    from lo have "(2::real) ^ nat (b' - 1) \<le> of_int (c - 1)"
      unfolding b'_def by (metis of_int_le_iff of_int_numeral of_int_power)
    moreover have "of_int (c - 1) < y" unfolding c_def by linarith
    ultimately have "(2::real) ^ nat (b' - 1) < y" by linarith
    then have "1 / y < 1 / 2 ^ nat (b' - 1)" by (simp add: frac_less2)
    moreover have "exponent x + 1 = - (b' - 1)" by (simp add: e)
    ultimately have 2: "x < 2 powi (exponent x + 1)"
      by (simp only: p2 xy)
    from 1 2 show ?thesis ..
  qed
  then show "2 powi exponent x \<le> x" and "x < 2 powi (exponent x + 1)" by simp_all
qed

lemma powi2_less_imp: "(2::real) powi a < 2 powi b \<Longrightarrow> a < b"
proof (rule ccontr)
  assume l: "(2::real) powi a < 2 powi b" and "\<not> a < b"
  then have "b \<le> a" by simp
  then have "(2::real) powi b \<le> 2 powi a" by (intro power_int_increasing) simp_all
  with l show False by simp
qed

lemma exponent_eqI:
  assumes "2 powi e \<le> x" and "x < 2 powi (e + 1)"
  shows "exponent x = e"
proof -
  have "(0::real) < 2 powi e" by simp
  with assms have pos: "0 < x" by linarith
  from exponent_bounds [OF pos] assms
  have "(2::real) powi e < 2 powi (exponent x + 1)" "(2::real) powi exponent x < 2 powi (e + 1)"
    by linarith+
  then have "e < exponent x + 1" "exponent x < e + 1" by (auto dest: powi2_less_imp)
  then show ?thesis by simp
qed

lemma exponent_ge: "2 powi k \<le> x \<Longrightarrow> k \<le> exponent x"
proof -
  assume a: "2 powi k \<le> x"
  have "(0::real) < 2 powi k" by simp
  with a have pos: "0 < x" by linarith
  from exponent_bounds(2) [OF pos] a have "(2::real) powi k < 2 powi (exponent x + 1)" by linarith
  then have "k < exponent x + 1" by (rule powi2_less_imp)
  then show ?thesis by simp
qed

lemma exponent_le: "0 < x \<Longrightarrow> x \<le> 2 powi k \<Longrightarrow> exponent x \<le> k"
proof (rule ccontr)
  assume pos: "0 < x" and a: "x \<le> 2 powi k" and "\<not> exponent x \<le> k"
  then have "k + 1 \<le> exponent x" by simp
  then have "(2::real) powi (k + 1) \<le> 2 powi exponent x" by (intro power_int_increasing) simp_all
  moreover have "(2::real) powi k < 2 powi (k + 1)" by (intro power_int_strict_increasing) simp_all
  ultimately show False using exponent_bounds(1) [OF pos] a by linarith
qed

subsection \<open>Rounding to binary64\<close>

lemma rnd64_pos:
  assumes "0 < x"
  shows "rnd64 x =
    of_int (round_half_even (x / 2 powi (max (exponent x) (- 1022) - 52)))
      * 2 powi (max (exponent x) (- 1022) - 52)"
  using assms by (simp add: rnd64_def Let_def)

lemma rnd64_le_powi:
  assumes "0 < x" and "x \<le> 2 powi k" and "- 1022 \<le> k"
  shows "rnd64 x \<le> 2 powi k"
proof -
  define e where "e = max (exponent x) (- 1022)"
  define u :: real where "u = 2 powi (e - 52)"
  have u: "0 < u" by (simp add: u_def)
  from exponent_le [OF assms(1,2)] assms(3) have ek: "e \<le> k" by (simp add: e_def)
  define N :: int where "N = 2 ^ nat (k - e + 52)"
  have "of_int N = (2::real) powi (k - e + 52)"
    using ek by (simp add: N_def power_int_nonneg_exp)
  also have "k - e + 52 = k - (e - 52)" by simp
  also have "(2::real) powi (k - (e - 52)) = 2 powi k / u"
    unfolding u_def by (rule power_int_diff) simp
  finally have N: "of_int N = 2 powi k / u" .
  from assms(2) u have "x / u \<le> 2 powi k / u" by (simp add: divide_right_mono)
  then have "round_half_even (x / u) \<le> N" by (intro round_half_even_le) (simp add: N)
  then have "of_int (round_half_even (x / u)) \<le> (of_int N :: real)" by simp
  with u have "of_int (round_half_even (x / u)) * u \<le> of_int N * u"
    by (simp add: mult_right_mono)
  also have "of_int N * u = 2 powi k" using u by (simp add: N)
  finally show ?thesis by (simp add: rnd64_pos [OF assms(1)] e_def u_def)
qed

lemma rnd64_ge_powi:
  assumes "2 powi k \<le> x" and "- 1022 \<le> k"
  shows "2 powi k \<le> rnd64 x"
proof -
  have "(0::real) < 2 powi k" by simp
  with assms(1) have pos: "0 < x" by linarith
  define e where "e = exponent x"
  define u :: real where "u = 2 powi (e - 52)"
  have u: "0 < u" by (simp add: u_def)
  from exponent_ge [OF assms(1)] have ke: "k \<le> e" by (simp add: e_def)
  with assms(2) have m: "max (exponent x) (- 1022) = e" by (simp add: e_def)
  define N :: int where "N = 2 ^ 52"
  have "of_int N = (2::real) powi 52" by (simp add: N_def)
  also have "52 = e - (e - 52)" by simp
  also have "(2::real) powi (e - (e - 52)) = 2 powi e / u"
    unfolding u_def by (rule power_int_diff) simp
  finally have N: "of_int N = 2 powi e / u" .
  from exponent_bounds(1) [OF pos] u have "2 powi e / u \<le> x / u"
    by (simp add: e_def divide_right_mono)
  then have "N \<le> round_half_even (x / u)" by (intro round_half_even_ge) (simp add: N)
  then have "(of_int N :: real) \<le> of_int (round_half_even (x / u))" by simp
  with u have "of_int N * u \<le> of_int (round_half_even (x / u)) * u"
    by (simp add: mult_right_mono)
  moreover have "of_int N * u = 2 powi e" using u by (simp add: N)
  moreover have "(2::real) powi k \<le> 2 powi e" using ke by (intro power_int_increasing) simp_all
  ultimately have "2 powi k \<le> of_int (round_half_even (x / u)) * u" by linarith
  then show ?thesis by (simp only: rnd64_pos [OF pos] m u_def)
qed


lemma rnd64_eval:
  assumes "2 powi e \<le> x" and "x < 2 powi (e + 1)" and "- 1022 \<le> e"
    and "\<bar>x / 2 powi (e - 52) - of_int m\<bar> < 1 / 2"
  shows "rnd64 x = of_int m * 2 powi (e - 52)"
proof -
  have "(0::real) < 2 powi e" by simp
  with assms(1) have pos: "0 < x" by linarith
  from exponent_eqI [OF assms(1,2)] assms(3) have m: "max (exponent x) (- 1022) = e" by simp
  show ?thesis
    by (simp add: rnd64_pos [OF pos] m round_half_even_near [OF assms(4)])
qed

lemma rnd64_of_int:
  assumes "\<bar>n\<bar> \<le> 2 ^ 53"
  shows "rnd64 (of_int n) = of_int n"
proof (cases "n = 0")
  case True
  then show ?thesis by (simp add: rnd64_def)
next
  case False
  define a :: real where "a = \<bar>of_int n\<bar>"
  from False have a1: "2 powi 0 \<le> a" by (simp add: a_def)
  from assms have "\<bar>of_int n :: real\<bar> \<le> of_int (2 ^ 53)"
    by (metis of_int_abs of_int_le_iff)
  then have a2: "a \<le> 2 powi 53" by (simp add: a_def)
  from a1 have pos: "0 < a" by simp
  define e where "e = exponent a"
  from exponent_ge [OF a1] have e0: "0 \<le> e" by (simp add: e_def)
  from exponent_le [OF pos a2] have e53: "e \<le> 53" by (simp add: e_def)
  from e0 have m: "max (exponent \<bar>of_int n\<bar>) (- 1022) = e" by (simp add: e_def a_def)
  define u :: real where "u = 2 powi (e - 52)"
  have u: "0 < u" by (simp add: u_def)
  have "\<exists>k::int. of_int n / u = of_int k"
  proof (cases "e \<le> 52")
    case True
    then have "1 / u = of_int (2 ^ nat (52 - e))"
      by (simp add: u_def power_int_minus_divide [symmetric] power_int_nonneg_exp)
    have "of_int n / u = of_int n * (1 / u)" by simp
    also have "\<dots> = of_int n * of_int (2 ^ nat (52 - e))"
      by (simp only: \<open>1 / u = of_int (2 ^ nat (52 - e))\<close>)
    also have "\<dots> = of_int (n * 2 ^ nat (52 - e))" by simp
    finally show ?thesis by blast
  next
    case False
    with e53 have e: "e = 53" by simp
    from exponent_bounds(1) [OF pos] have "2 powi 53 \<le> a" by (simp add: e_def [symmetric] e)
    with a2 have "a = 2 ^ 53" by simp
    then have "\<bar>n\<bar> = 2 ^ 53"
      unfolding a_def by (metis of_int_abs of_int_eq_iff of_int_numeral of_int_power)
    then have "n = 2 ^ 53 \<or> n = - (2 ^ 53)" by linarith
    moreover have "u = 2" by (simp add: u_def e)
    ultimately have "of_int n / u = of_int (2 ^ 52) \<or> of_int n / u = of_int (- (2 ^ 52))"
      by auto
    then show ?thesis by blast
  qed
  then obtain k :: int where k: "of_int n / u = of_int k" ..
  have "rnd64 (of_int n) = of_int (round_half_even (of_int n / u)) * u"
    using False by (simp add: rnd64_def Let_def m u_def)
  also have "\<dots> = of_int k * u" by (simp add: k round_half_even_of_int)
  also have "\<dots> = of_int n" using u by (simp add: k [symmetric])
  finally show ?thesis .
qed

lemma fl64_Fin: "\<bar>rnd64 x\<bar> < 2 ^ 1024 \<Longrightarrow> fl64 x = Fin (rnd64 x)"
  by (simp add: fl64_def Let_def)

lemma fl64_between:
  assumes "2 powi a \<le> x" and "x \<le> 2 powi b" and "- 1022 \<le> a" and "b \<le> 1023"
  shows "fl64 x = Fin (rnd64 x)" and "2 powi a \<le> rnd64 x" and "rnd64 x \<le> 2 powi b"
proof -
  have "(0::real) < 2 powi a" by simp
  with assms(1) have pos: "0 < x" by linarith
  from assms(1,2) have "(2::real) powi a \<le> 2 powi b" by linarith
  have "a \<le> b"
  proof (rule ccontr)
    assume "\<not> a \<le> b"
    then have "b < a" by simp
    then have "(2::real) powi b < 2 powi a" by (intro power_int_strict_increasing) simp_all
    with \<open>(2::real) powi a \<le> 2 powi b\<close> show False by simp
  qed
  with assms(3) have b: "- 1022 \<le> b" by simp
  show lo: "2 powi a \<le> rnd64 x" by (rule rnd64_ge_powi [OF assms(1,3)])
  show hi: "rnd64 x \<le> 2 powi b" by (rule rnd64_le_powi [OF pos assms(2) b])
  have "(2::real) powi b < 2 powi 1024"
    using assms(4) by (intro power_int_strict_increasing) simp_all
  with hi have "rnd64 x < 2 ^ 1024" by simp
  moreover from lo \<open>0 < 2 powi a\<close> have "0 < rnd64 x" by linarith
  ultimately show "fl64 x = Fin (rnd64 x)" by (intro fl64_Fin) simp
qed

lemma fl64_of_int: "\<bar>n\<bar> \<le> 2 ^ 53 \<Longrightarrow> fl64 (of_int n) = Fin (of_int n)"
proof -
  assume a: "\<bar>n\<bar> \<le> 2 ^ 53"
  then have "\<bar>of_int n :: real\<bar> \<le> of_int (2 ^ 53)"
    by (metis of_int_abs of_int_le_iff)
  then have "\<bar>of_int n :: real\<bar> \<le> 2 ^ 53" by simp
  moreover have "(2::real) ^ 53 < 2 ^ 1024" by (intro power_strict_increasing) simp_all
  ultimately have "\<bar>of_int n :: real\<bar> < 2 ^ 1024" by linarith
  then show ?thesis by (simp add: fl64_def Let_def rnd64_of_int [OF a])
qed

subsection \<open>Clipping\<close>

lemma clip_value_ints:
  assumes "\<bar>min hi (max v lo)\<bar> \<le> 2 ^ 53"
  shows "clip_value (PyInt v) (PyInt lo) (PyInt hi) = Inr (Fin (of_int (min hi (max v lo))))"
  by (simp add: clip_value_def np_clip_def then_do_def py_float_def fl64_of_int [OF assms])

lemma clip_value_floats:
  "clip_value (PyFloat (Fin x)) (PyFloat (Fin lo)) (PyFloat (Fin hi)) =
     Inr (Fin (min hi (max x lo)))"
  by (simp add: clip_value_def np_clip_def then_do_def py_float_def np_minimum_def
        np_maximum_def min_def max_def)

lemma clip_value_float_ints:
  assumes "\<bar>lo\<bar> \<le> 2 ^ 53" and "\<bar>hi\<bar> \<le> 2 ^ 53"
  shows "clip_value (PyFloat (Fin x)) (PyInt lo) (PyInt hi) =
     Inr (Fin (min (of_int hi) (max x (of_int lo))))"
  by (simp add: clip_value_def np_clip_def then_do_def py_float_def fl64_of_int [OF assms(1)]
        fl64_of_int [OF assms(2)] np_minimum_def np_maximum_def min_def max_def)

subsection \<open>The BMI computation never fails\<close>

lemma step_height_m:
  assumes "100 \<le> h" and "h \<le> 220"
  shows "py_truediv (Fin h) (Fin 100) = Inr (Fin (rnd64 (h / 100)))"
    and "1 \<le> rnd64 (h / 100)" and "rnd64 (h / 100) \<le> 4"
proof -
  from assms have "2 powi 0 \<le> h / 100" "h / 100 \<le> 2 powi 2" by simp_all
  from fl64_between [OF this]
  have "fl64 (h / 100) = Fin (rnd64 (h / 100))" "2 powi 0 \<le> rnd64 (h / 100)"
    "rnd64 (h / 100) \<le> 2 powi 2" by simp_all
  then show "py_truediv (Fin h) (Fin 100) = Inr (Fin (rnd64 (h / 100)))"
    and "1 \<le> rnd64 (h / 100)" and "rnd64 (h / 100) \<le> 4"
    by (simp_all add: py_truediv_def)
qed

lemma step_square:
  assumes "1 \<le> a" and "a \<le> 4"
  shows "py_pow2 (Fin a) = Inr (Fin (rnd64 (a * a)))"
    and "1 \<le> rnd64 (a * a)" and "rnd64 (a * a) \<le> 16"
proof -
  from assms have "1 * 1 \<le> a * a" by (intro mult_mono) simp_all
  moreover from assms have "a * a \<le> 4 * 4" by (intro mult_mono) simp_all
  ultimately have "2 powi 0 \<le> a * a" "a * a \<le> 2 powi 4" by simp_all
  from fl64_between [OF this]
  have "fl64 (a * a) = Fin (rnd64 (a * a))" "2 powi 0 \<le> rnd64 (a * a)"
    "rnd64 (a * a) \<le> 2 powi 4" by simp_all
  then show "py_pow2 (Fin a) = Inr (Fin (rnd64 (a * a)))"
    and "1 \<le> rnd64 (a * a)" and "rnd64 (a * a) \<le> 16"
    by (simp_all add: py_pow2_def)
qed

lemma step_quotient:
  assumes "20 \<le> w" and "w \<le> 250" and "1 \<le> b" and "b \<le> 16"
  shows "py_truediv (Fin w) (Fin b) = Inr (Fin (rnd64 (w / b)))"
    and "1 \<le> rnd64 (w / b)" and "rnd64 (w / b) \<le> 256"
proof -
  from assms have "1 \<le> w / b" by (simp add: pos_le_divide_eq)
  moreover from assms have "w / b \<le> 256" by (simp add: pos_divide_le_eq)
  ultimately have "2 powi 0 \<le> w / b" "w / b \<le> 2 powi 8" by simp_all
  from fl64_between [OF this]
  have "fl64 (w / b) = Fin (rnd64 (w / b))" "2 powi 0 \<le> rnd64 (w / b)"
    "rnd64 (w / b) \<le> 2 powi 8" by simp_all
  with assms(3) show "py_truediv (Fin w) (Fin b) = Inr (Fin (rnd64 (w / b)))"
    and "1 \<le> rnd64 (w / b)" and "rnd64 (w / b) \<le> 256"
    by (simp_all add: py_truediv_def)
qed

lemma step_round:
  assumes "1 \<le> q" and "q \<le> 256"
  shows "py_round (Fin q) 2 = Fin (rnd64 (of_int (round_half_even (q * 10 ^ 2)) / 10 ^ 2))"
    and "1 \<le> rnd64 (of_int (round_half_even (q * 10 ^ 2)) / 10 ^ 2)"
    and "rnd64 (of_int (round_half_even (q * 10 ^ 2)) / 10 ^ 2) \<le> 256"
proof -
  define k where "k = round_half_even (q * 10 ^ 2)"
  from assms have "of_int 100 \<le> q * 10 ^ 2" "q * 10 ^ 2 \<le> of_int 25600" by simp_all
  then have "100 \<le> k" "k \<le> 25600"
    unfolding k_def by (simp_all only: round_half_even_ge round_half_even_le)
  then have "(100::real) \<le> of_int k" "of_int k \<le> (25600::real)" by simp_all
  then have "2 powi 0 \<le> of_int k / (10::real) ^ 2" "of_int k / (10::real) ^ 2 \<le> 2 powi 8"
    by simp_all
  from fl64_between [OF this]
  have "fl64 (of_int k / 10 ^ 2) = Fin (rnd64 (of_int k / 10 ^ 2))"
    "2 powi 0 \<le> rnd64 (of_int k / 10 ^ 2)" "rnd64 (of_int k / 10 ^ 2) \<le> 2 powi 8"
    by simp_all
  then show "py_round (Fin q) 2 = Fin (rnd64 (of_int (round_half_even (q * 10 ^ 2)) / 10 ^ 2))"
    and "1 \<le> rnd64 (of_int (round_half_even (q * 10 ^ 2)) / 10 ^ 2)"
    and "rnd64 (of_int (round_half_even (q * 10 ^ 2)) / 10 ^ 2) \<le> 256"
    by (simp_all add: py_round_def k_def)
qed

subsection \<open>The locals of the handler in closed form\<close>

lemma then_do_Inr: "then_do (Inr x) f = f x"
  by (simp add: then_do_def)

lemma clip_int_small:
  assumes "0 \<le> lo" and "lo \<le> hi" and "hi \<le> 400"
  shows "clip_value (PyInt v) (PyInt lo) (PyInt hi) = Inr (Fin (of_int (min hi (max v lo))))"
proof (rule clip_value_ints)
  from assms have "0 \<le> min hi (max v lo)" "min hi (max v lo) \<le> 400" by simp_all
  then show "\<bar>min hi (max v lo)\<bar> \<le> 2 ^ 53" by simp
qed

lemma clip_float_small:
  assumes "0 \<le> lo" and "lo \<le> hi" and "hi \<le> 400"
  shows "clip_value (PyFloat (Fin x)) (PyInt lo) (PyInt hi) =
     Inr (Fin (min (of_int hi) (max x (of_int lo))))"
proof (rule clip_value_float_ints)
  from assms show "\<bar>lo\<bar> \<le> 2 ^ 53" "\<bar>hi\<bar> \<le> 2 ^ 53" by simp_all
qed

lemma prepare_eq:
  "prepare inp dpf =
     Inr \<lparr>v_glucose = Fin (of_int (min 300 (max (in_glucose inp) 40))),
          v_blood = Fin (of_int (min 140 (max (in_blood inp) 40))),
          v_weight = Fin (min 250 (max (in_weight inp) 20)),
          v_height = Fin (min 220 (max (in_height inp) 100)),
          v_bmi = Fin (min 60 (max (float_bmi (min 250 (max (in_weight inp) 20))
                                      (min 220 (max (in_height inp) 100))) 10)),
          v_age = in_age inp,
          v_insulin_used = (case in_insulin inp of
                              Some i \<Rightarrow> Fin (of_int (min 400 (max i 10)))
                            | None \<Rightarrow> Fin 80),
          v_skin_used = (case in_skin inp of
                           Some k \<Rightarrow> Fin (of_int (min 80 (max k 5)))
                         | None \<Rightarrow> Fin 20),
          v_insulin_provided_flag = (in_insulin inp \<noteq> None),
          v_skin_provided_flag = (in_skin inp \<noteq> None),
          v_dpf = dpf,
          v_feature_vector =
            [[Fin (of_int (min 300 (max (in_glucose inp) 40))),
              Fin (min 60 (max (float_bmi (min 250 (max (in_weight inp) 20))
                                  (min 220 (max (in_height inp) 100))) 10)),
              np_float64 (in_age inp),
              Fin (of_int (min 140 (max (in_blood inp) 40))),
              (case in_insulin inp of
                 Some i \<Rightarrow> Fin (of_int (min 400 (max i 10)))
               | None \<Rightarrow> Fin 80),
              fl64 dpf,
              (case in_skin inp of
                 Some k \<Rightarrow> Fin (of_int (min 80 (max k 5)))
               | None \<Rightarrow> Fin 20)]]\<rparr>"
proof -
  define w where "w = min 250 (max (in_weight inp) 20)"
  define h where "h = min 220 (max (in_height inp) 100)"
  have wb: "20 \<le> w" "w \<le> 250" and hb: "100 \<le> h" "h \<le> 220"
    by (simp_all add: w_def h_def)
  note a = step_height_m [OF hb]
  note b = step_square [OF a(2,3)]
  note q = step_quotient [OF wb b(2,3)]
  note r = step_round [OF q(2,3)]
  have bmi: "clip_value (PyFloat (Fin (float_bmi w h))) (PyInt 10) (PyInt 60) =
      Inr (Fin (min 60 (max (float_bmi w h) 10)))"
    using clip_float_small [of 10 60 "float_bmi w h"] by simp
  have gl: "clip_value (PyInt v) (PyInt 40) (PyInt 300) = Inr (Fin (of_int (min 300 (max v 40))))"
    and bl: "clip_value (PyInt v) (PyInt 40) (PyInt 140) = Inr (Fin (of_int (min 140 (max v 40))))"
    and ins: "clip_value (PyInt v) (PyInt 10) (PyInt 400) = Inr (Fin (of_int (min 400 (max v 10))))"
    and sk: "clip_value (PyInt v) (PyInt 5) (PyInt 80) = Inr (Fin (of_int (min 80 (max v 5))))"
    for v
    by (rule clip_int_small; simp)+
  have ins0: "clip_value (PyFloat (Fin 80)) (PyInt 10) (PyInt 400) = Inr (Fin 80)"
    and sk0: "clip_value (PyFloat (Fin 20)) (PyInt 5) (PyInt 80) = Inr (Fin 20)"
    using clip_float_small [of 10 400 80] clip_float_small [of 5 80 20] by simp_all
  have fr: "py_round (Fin (rnd64 (w / rnd64 (rnd64 (h / 100) * rnd64 (h / 100))))) 2
      = Fin (float_bmi w h)"
    using r(1) by (simp add: float_bmi_def float_quotient_def)
  show ?thesis
    unfolding prepare_def RANGES.simps fst_conv snd_conv MEDIAN_FALLBACKS.simps
      gl bl clip_value_floats then_do_Inr w_def [symmetric] h_def [symmetric]
      a(1) b(1) q(1) Let_def fr bmi
    by (cases "in_insulin inp"; cases "in_skin inp")
       (simp_all add: ins sk ins0 sk0 then_do_Inr)
qed

subsection \<open>The rounding error of the BMI\<close>




subsection \<open>Values at particular inputs\<close>

lemma float_bmi_70_170: "float_bmi 70 170 = rnd64 (2422 / 100)"
proof -
  have a: "rnd64 (170 / 100) = of_int 7656119366529843 * 2 powi (0 - 52)"
    by (rule rnd64_eval) simp_all
  have b: "rnd64 (of_int 7656119366529843 * 2 powi (0 - 52) * (of_int 7656119366529843 * 2 powi (0 - 52))) = of_int 6507701461550366 * 2 powi (1 - 52)"
    by (rule rnd64_eval) simp_all
  have q: "rnd64 (70 / (of_int 6507701461550366 * 2 powi (1 - 52))) = of_int 6817732999912084 * 2 powi (4 - 52)"
    by (rule rnd64_eval) simp_all
  have k: "round_half_even (of_int 6817732999912084 * 2 powi (4 - 52) * 10 ^ 2) = 2422"
    by (rule round_half_even_near) simp
  show ?thesis
    unfolding float_bmi_def float_quotient_def a b q k by simp
qed



lemma rnd64_tie: "rnd64 (of_int (2 ^ 53 + 1)) = 2 ^ 53"
proof -
  have e: "exponent \<bar>of_int (2 ^ 53 + 1)\<bar> = 53"
    by (rule exponent_eqI) simp_all
  have r: "round_half_even (9007199254740993 / 2) = 4503599627370496"
    by (simp add: round_half_even_def Let_def)
  show ?thesis
    unfolding rnd64_def e using r by (simp add: Let_def)
qed

lemma rnd64_2422: "16 \<le> rnd64 (2422 / 100)" "rnd64 (2422 / 100) \<le> 32"
  using fl64_between(2,3) [of 4 "2422 / 100" 5] by simp_all



lemma np_float64_small: "\<bar>n\<bar> \<le> 2 ^ 53 \<Longrightarrow> np_float64 n = Fin (of_int n)"
  by (simp add: np_float64_def fl64_of_int)

lemma fl64_score: "fl64 (5 / 100) = Fin (rnd64 (5 / 100))"
  using fl64_between(1) [of "- 5" "5 / 100" "- 4"] by simp

lemma prepare_default_form:
  "prepare default_form (5 / 100) =
     Inr \<lparr>v_glucose = Fin 100, v_blood = Fin 80, v_weight = Fin 70, v_height = Fin 170,
          v_bmi = Fin (rnd64 (2422 / 100)), v_age = 40, v_insulin_used = Fin 80,
          v_skin_used = Fin 20, v_insulin_provided_flag = False,
          v_skin_provided_flag = False, v_dpf = 5 / 100,
          v_feature_vector =
            [[Fin 100, Fin (rnd64 (2422 / 100)), Fin 40, Fin 80, Fin 80,
              Fin (rnd64 (5 / 100)), Fin 20]]\<rparr>"
proof -
  have b: "min 60 (max (float_bmi 70 170) 10) = rnd64 (2422 / 100)"
    unfolding float_bmi_70_170 using rnd64_2422 by simp
  have a: "np_float64 40 = Fin 40" using np_float64_small [of 40] by simp
  have w: "min 250 (max (in_weight default_form) 20) = 70"
    and h: "min 220 (max (in_height default_form) 100) = 170"
    by (simp_all add: default_form_def)
  show ?thesis
    unfolding prepare_eq w h b fl64_score by (simp add: default_form_def a)
qed

lemma tiers_distinct: "distinct [tier_low, tier_medium, tier_high]"
  by (simp add: tier_low_def tier_medium_def tier_high_def)

lemma advice_distinct:
  "distinct [advice_obesity, advice_overweight, advice_healthy_weight,
             advice_glucose_urgent, advice_glucose_prediabetes, advice_glucose_normal,
             advice_blood_pressure, advice_data_completeness, advice_age]"
  by (simp add: advice_obesity_def advice_overweight_def advice_healthy_weight_def
                advice_glucose_urgent_def advice_glucose_prediabetes_def advice_glucose_normal_def
                advice_blood_pressure_def advice_data_completeness_def advice_age_def)

lemma labels_distinct:
  "distinct [label_no_history, label_distant_relative, label_parent, label_parent_siblings, label_multiple_relatives]"
  by (simp add: label_no_history_def label_distant_relative_def label_parent_def label_parent_siblings_def label_multiple_relatives_def)


lemma default_label: "dpf_lookup (in_dpf_label default_form) = Inr (5 / 100)"
  by (simp add: dpf_lookup_def DPF_MAP_def default_form_def)

lemma run_script_submit:
  "dpf_lookup (in_dpf_label inp) = Inr dpf \<Longrightarrow>
   run_script a inp True = submit_handler (fst (load_model a)) inp dpf"
  by (simp add: run_script_def split: prod.splits)

subsection \<open>Clipping of floats in general\<close>

lemma clip_floats_all:
  assumes "v \<noteq> NaN" and "lo \<noteq> NaN" and "hi \<noteq> NaN" and "py_le lo hi"
  shows "np_minimum hi (np_maximum v lo) = np_maximum lo (np_minimum v hi)
    \<and> py_le lo (np_minimum hi (np_maximum v lo))
    \<and> py_le (np_minimum hi (np_maximum v lo)) hi
    \<and> (py_le lo v \<and> py_le v hi \<longrightarrow> np_minimum hi (np_maximum v lo) = v)
    \<and> np_minimum hi (np_maximum v lo) \<noteq> NaN
    \<and> np_minimum hi (np_maximum (np_minimum hi (np_maximum v lo)) lo)
           = np_minimum hi (np_maximum v lo)"
  using assms
  by (cases v; cases lo; cases hi)
     (auto simp add: np_minimum_def np_maximum_def py_le_def)

lemma clip_floats_general:
  assumes "v \<noteq> NaN" and "lo \<noteq> NaN" and "hi \<noteq> NaN" and "py_le lo hi"
  shows "np_minimum hi (np_maximum v lo) = np_maximum lo (np_minimum v hi)"
    and "py_le lo (np_minimum hi (np_maximum v lo))"
    and "py_le (np_minimum hi (np_maximum v lo)) hi"
    and "py_le lo v \<and> py_le v hi \<longrightarrow> np_minimum hi (np_maximum v lo) = v"
    and "np_minimum hi (np_maximum v lo) \<noteq> NaN"
    and "np_minimum hi (np_maximum (np_minimum hi (np_maximum v lo)) lo)
           = np_minimum hi (np_maximum v lo)"
  using clip_floats_all [OF assms] by blast+

lemma clip_value_two_floats:
  "clip_value (PyFloat v) (PyFloat lo) (PyFloat hi) = Inr (np_minimum hi (np_maximum v lo))"
  by (simp add: clip_value_def np_clip_def then_do_def py_float_def)

lemma clip_value_float_int_bounds:
  assumes "\<bar>lo\<bar> \<le> 2 ^ 53" and "\<bar>hi\<bar> \<le> 2 ^ 53"
  shows "clip_value (PyFloat v) (PyInt lo) (PyInt hi)
     = Inr (np_minimum (Fin (of_int hi)) (np_maximum v (Fin (of_int lo))))"
  by (simp add: clip_value_def np_clip_def then_do_def py_float_def fl64_of_int [OF assms(1)]
        fl64_of_int [OF assms(2)])

subsection \<open>The handler at a rounding tie\<close>




subsection \<open>The handler with a model\<close>



section \<open>Properties\<close>

text \<open>
  C1, as stated: while the model is absent the handler reports the missing artifact
  before the feature vector is assembled. The handler assembles the array (line 156)
  and writes the input summary (lines 158-171) before it looks at the model (line 173):
  on the default form with the model file missing, the trace starts with the array.
  (The BMI in it is the float nearest to 24.22.)
\<close>

theorem absent_model_counterexample:
  "run_script File_absent default_form True =
     Inr [Np_array [[Fin 100, Fin (rnd64 (2422 / 100)), Fin 40, Fin 80, Fin 80,
                     Fin (rnd64 (5 / 100)), Fin 20]],
          St_subheader_summary,
          St_write_summary
            \<lparr>s_Glucose = Fin 100, s_BMI = Fin (rnd64 (2422 / 100)), s_Age = 40,
             s_BloodPressure = Fin 80, s_Insulin_used = Fin 80, s_DPF = 5 / 100,
             s_SkinThickness_used = Fin 20, s_Insulin_provided = False,
             s_Skin_provided = False\<rparr>,
          St_error_no_model]"
proof -
  have "run_script File_absent default_form True = submit_handler None default_form (5 / 100)"
    using run_script_submit [OF default_label, of File_absent] by (simp add: load_model_def)
  also have "\<dots> =
     Inr [Np_array [[Fin 100, Fin (rnd64 (2422 / 100)), Fin 40, Fin 80, Fin 80,
                     Fin (rnd64 (5 / 100)), Fin 20]],
          St_subheader_summary,
          St_write_summary
            \<lparr>s_Glucose = Fin 100, s_BMI = Fin (rnd64 (2422 / 100)), s_Age = 40,
             s_BloodPressure = Fin 80, s_Insulin_used = Fin 80, s_DPF = 5 / 100,
             s_SkinThickness_used = Fin 20, s_Insulin_provided = False,
             s_Skin_provided = False\<rparr>,
          St_error_no_model]"
    unfolding submit_handler_def prepare_default_form
    by (simp add: predict_block_def summary_of_def)
  finally show ?thesis .
qed

text \<open>
  C1, amended. For every submission made while the artifact failed to load (and with a
  label of the table), the handler clips the inputs, assembles the feature vector and
  writes the input summary, then reports that no model is available and stops: the
  classifier is never called, and no probability, tier, message or advice line is
  shown.
\<close>

theorem absent_model_reports_unavailable:
  assumes "fst (load_model a) = None"
    and "dpf_lookup (in_dpf_label inp) = Inr dpf"
  shows "\<exists>l tr. prepare inp dpf = Inr l
     \<and> run_script a inp True = Inr tr
     \<and> tr = [Np_array (v_feature_vector l), St_subheader_summary,
              St_write_summary (summary_of l), St_error_no_model]
     \<and> classifier_inputs tr = []
     \<and> filter is_assessment tr = []"
proof -
  have "run_script a inp True = submit_handler None inp dpf"
    using run_script_submit [OF assms(2), of a] assms(1) by simp
  then show ?thesis
    by (simp add: submit_handler_def prepare_eq predict_block_def classifier_inputs_def
          map_filter_def)
qed

theorem absent_model_reports_unavailable_witness:
  "fst (load_model File_absent) = None
   \<and> dpf_lookup (in_dpf_label default_form) = Inr (5 / 100)
   \<and> (\<exists>l tr. prepare default_form (5 / 100) = Inr l
        \<and> run_script File_absent default_form True = Inr tr
        \<and> tr = [Np_array (v_feature_vector l), St_subheader_summary,
                 St_write_summary (summary_of l), St_error_no_model]
        \<and> classifier_inputs tr = []
        \<and> filter is_assessment tr = [])"
proof -
  have h1: "fst (load_model File_absent) = None" by (simp add: load_model_def)
  from absent_model_reports_unavailable [OF h1 default_label] h1 default_label
  show ?thesis by blast
qed



text \<open>
  C3. \<^verbatim>\<open>risk_level_from_prob(p)\<close> returns the low tier and its message when
  \<open>p < 0.30\<close>, the medium tier and its message when \<open>0.30 \<le> p < 0.60\<close>, the high tier
  and its message when \<open>p \<ge> 0.60\<close>. At the boundaries: 0.29 is low, 0.30 is medium,
  0.59 is medium, 0.60 is high. The three tier labels are different strings.
\<close>

theorem risk_level_from_prob_buckets:
  "(p < 30 / 100 \<longrightarrow> risk_level_from_prob p = (tier_low, msg_low))
   \<and> (30 / 100 \<le> p \<and> p < 60 / 100 \<longrightarrow> risk_level_from_prob p = (tier_medium, msg_medium))
   \<and> (60 / 100 \<le> p \<longrightarrow> risk_level_from_prob p = (tier_high, msg_high))
   \<and> risk_level_from_prob (29 / 100) = (tier_low, msg_low)
   \<and> risk_level_from_prob (30 / 100) = (tier_medium, msg_medium)
   \<and> risk_level_from_prob (59 / 100) = (tier_medium, msg_medium)
   \<and> risk_level_from_prob (60 / 100) = (tier_high, msg_high)
   \<and> distinct [tier_low, tier_medium, tier_high]"
  using tiers_distinct by (simp add: risk_level_from_prob_def)

theorem risk_level_from_prob_buckets_witness:
  "(1 / 10 :: real) < 30 / 100 \<and> risk_level_from_prob (1 / 10) = (tier_low, msg_low)
   \<and> (30 / 100 :: real) \<le> 45 / 100 \<and> (45 / 100 :: real) < 60 / 100
   \<and> risk_level_from_prob (45 / 100) = (tier_medium, msg_medium)
   \<and> (60 / 100 :: real) \<le> 9 / 10 \<and> risk_level_from_prob (9 / 10) = (tier_high, msg_high)"
  using risk_level_from_prob_buckets [of "1 / 10"] risk_level_from_prob_buckets [of "45 / 100"]
    risk_level_from_prob_buckets [of "9 / 10"]
  by simp

text \<open>
  C4. With all four numbers present, \<^verbatim>\<open>health_advice\<close> returns, in this order: one
  weight advisory (obesity from BMI 30, overweight from 25, healthy below), one glucose
  advisory (urgent from 200, pre-diabetes from 140, normal below), the blood-pressure
  advisory exactly when blood pressure is at least 120, one data-completeness advisory
  exactly when insulin or skin thickness was not provided, and the age advisory exactly
  when age is at least 60. For glucose 250, BMI 32, blood pressure 130, age 65, insulin
  not provided and skin provided these are the five lines obesity, urgent glucose, blood
  pressure, data completeness, age. The nine advisory texts are pairwise different.
\<close>

theorem health_advice_composition:
  "health_advice (Some (Fin glucose)) (Some (Fin bmi)) (Some (Fin blood)) (Some age)
       insulin_provided skin_provided =
     [if 30 \<le> bmi then advice_obesity
      else if 25 \<le> bmi then advice_overweight
      else advice_healthy_weight]
     @ [if 200 \<le> glucose then advice_glucose_urgent
        else if 140 \<le> glucose then advice_glucose_prediabetes
        else advice_glucose_normal]
     @ (if 120 \<le> blood then [advice_blood_pressure] else [])
     @ (if \<not> insulin_provided \<or> \<not> skin_provided then [advice_data_completeness] else [])
     @ (if 60 \<le> age then [advice_age] else [])
   \<and> health_advice (Some (Fin 250)) (Some (Fin 32)) (Some (Fin 130)) (Some 65) False True =
       [advice_obesity, advice_glucose_urgent, advice_blood_pressure,
        advice_data_completeness, advice_age]
   \<and> distinct [advice_obesity, advice_overweight, advice_healthy_weight,
               advice_glucose_urgent, advice_glucose_prediabetes, advice_glucose_normal,
               advice_blood_pressure, advice_data_completeness, advice_age]"
  using advice_distinct by (simp add: health_advice_def py_ge_def py_le_def less_eq_real_def)

theorem health_advice_composition_witness:
  "health_advice (Some (Fin 150)) (Some (Fin 27)) (Some (Fin 110)) (Some 45) True True =
     [advice_overweight, advice_glucose_prediabetes]
   \<and> health_advice (Some (Fin 90)) (Some (Fin 22)) (Some (Fin 125)) (Some 70) True False =
     [advice_healthy_weight, advice_glucose_normal, advice_blood_pressure,
      advice_data_completeness, advice_age]"
  using health_advice_composition [of 150 27 110 45 True True]
    health_advice_composition [of 90 22 125 70 True False]
  by simp






text \<open>
  C7. \<^verbatim>\<open>DPF_MAP\<close> has exactly five entries with five different labels: no family
  history gives 0.05, distant relative 0.5, parent 1.0, parent and siblings 2.0,
  several relatives 2.5. Looking up any other label raises \<^verbatim>\<open>KeyError\<close> and yields
  no value.
\<close>

theorem dpf_lookup_table:
  "length DPF_MAP = 5
   \<and> distinct (map fst DPF_MAP)
   \<and> map fst DPF_MAP = [label_no_history, label_distant_relative, label_parent,
                         label_parent_siblings, label_multiple_relatives]
   \<and> dpf_lookup label_no_history = Inr (5 / 100)
   \<and> dpf_lookup label_distant_relative = Inr (5 / 10)
   \<and> dpf_lookup label_parent = Inr 1
   \<and> dpf_lookup label_parent_siblings = Inr 2
   \<and> dpf_lookup label_multiple_relatives = Inr (25 / 10)
   \<and> (label \<notin> set (map fst DPF_MAP) \<longrightarrow> dpf_lookup label = Inl (KeyError label))"
  using labels_distinct by (auto simp add: dpf_lookup_def DPF_MAP_def)

theorem dpf_lookup_table_witness:
  "[120] \<notin> set (map fst DPF_MAP) \<and> dpf_lookup [120] = Inl (KeyError [120])
   \<and> dpf_lookup label_parent = Inr 1"
proof -
  have h: "[120] \<notin> set (map fst DPF_MAP)"
    by (simp add: DPF_MAP_def label_no_history_def label_distant_relative_def label_parent_def
          label_parent_siblings_def label_multiple_relatives_def)
  from dpf_lookup_table [of "[120]"] h show ?thesis by blast
qed

text \<open>
  C8. For every submission: an insulin value that is present is clipped to \<open>[10, 400]\<close>
  and used, an absent one is replaced by the fallback 80.0, whose clipping leaves it
  80.0; a skin-thickness value that is present is clipped to \<open>[5, 80]\<close> and used, an
  absent one is replaced by the fallback 20.0, whose clipping leaves it 20.0. The two
  flags are true exactly when the corresponding input was supplied, whatever clipping
  did.
\<close>

theorem optional_inputs_resolved:
  "\<exists>l. prepare inp dpf = Inr l
     \<and> (\<forall>i. in_insulin inp = Some i \<longrightarrow>
          clip_value (PyInt i) (PyInt 10) (PyInt 400) = Inr (v_insulin_used l)
          \<and> v_insulin_used l = Fin (of_int (min 400 (max i 10))))
     \<and> (in_insulin inp = None \<longrightarrow>
          clip_value (PyFloat (MEDIAN_FALLBACKS K_Insulin)) (PyInt 10) (PyInt 400)
            = Inr (v_insulin_used l)
          \<and> v_insulin_used l = MEDIAN_FALLBACKS K_Insulin)
     \<and> (\<forall>k. in_skin inp = Some k \<longrightarrow>
          clip_value (PyInt k) (PyInt 5) (PyInt 80) = Inr (v_skin_used l)
          \<and> v_skin_used l = Fin (of_int (min 80 (max k 5))))
     \<and> (in_skin inp = None \<longrightarrow>
          clip_value (PyFloat (MEDIAN_FALLBACKS K_SkinThickness)) (PyInt 5) (PyInt 80)
            = Inr (v_skin_used l)
          \<and> v_skin_used l = MEDIAN_FALLBACKS K_SkinThickness)
     \<and> (v_insulin_provided_flag l \<longleftrightarrow> in_insulin inp \<noteq> None)
     \<and> (v_skin_provided_flag l \<longleftrightarrow> in_skin inp \<noteq> None)
     \<and> MEDIAN_FALLBACKS K_Insulin = Fin 80 \<and> MEDIAN_FALLBACKS K_SkinThickness = Fin 20
     \<and> RANGES K_insulin = (PyInt 10, PyInt 400) \<and> RANGES K_skin = (PyInt 5, PyInt 80)"
proof -
  have "clip_value (PyInt v) (PyInt 10) (PyInt 400) = Inr (Fin (of_int (min 400 (max v 10))))"
    and "clip_value (PyInt v) (PyInt 5) (PyInt 80) = Inr (Fin (of_int (min 80 (max v 5))))" for v
    by (rule clip_int_small; simp)+
  moreover have "clip_value (PyFloat (Fin 80)) (PyInt 10) (PyInt 400) = Inr (Fin 80)"
    and "clip_value (PyFloat (Fin 20)) (PyInt 5) (PyInt 80) = Inr (Fin 20)"
    using clip_float_small [of 10 400 80] clip_float_small [of 5 80 20] by simp_all
  ultimately show ?thesis by (auto simp add: prepare_eq)
qed

theorem optional_inputs_resolved_witness:
  "(\<exists>l. prepare (default_form\<lparr>in_insulin := Some 500\<rparr>) (5 / 100) = Inr l
      \<and> v_insulin_used l = Fin 400 \<and> v_insulin_provided_flag l
      \<and> v_skin_used l = Fin 20 \<and> \<not> v_skin_provided_flag l)
   \<and> (\<exists>l. prepare (default_form\<lparr>in_skin := Some 2\<rparr>) (5 / 100) = Inr l
      \<and> v_insulin_used l = Fin 80 \<and> \<not> v_insulin_provided_flag l
      \<and> v_skin_used l = Fin 5 \<and> v_skin_provided_flag l)"
  using optional_inputs_resolved [of "default_form\<lparr>in_insulin := Some 500\<rparr>" "5 / 100"]
    optional_inputs_resolved [of "default_form\<lparr>in_skin := Some 2\<rparr>" "5 / 100"]
  by (auto simp add: default_form_def)

text \<open>
  C9, as stated: for every value \<open>v\<close> and bounds \<open>lo \<le> hi\<close> the result lies in
  \<open>[lo, hi]\<close> and equals \<open>v\<close> when \<open>v\<close> is in range. The int \<open>2\<^sup>5\<^sup>3 + 1\<close> lies
  between 0 and \<open>10\<^sup>1\<^sup>7\<close>, and the result is the float \<open>2\<^sup>5\<^sup>3\<close>: line 52 converts to
  a float, and \<open>v\<close> is not one. For NaN the result is NaN, which lies in no range.
\<close>

theorem clip_value_counterexample:
  "clip_value (PyInt (2 ^ 53 + 1)) (PyInt 0) (PyInt (10 ^ 17)) = Inr (Fin (2 ^ 53))
   \<and> (0::int) \<le> 2 ^ 53 + 1 \<and> (2 ^ 53 + 1 :: int) \<le> 10 ^ 17
   \<and> (2 ^ 53 :: real) \<noteq> of_int (2 ^ 53 + 1)
   \<and> clip_value (PyFloat NaN) (PyInt 0) (PyInt 10) = Inr NaN
   \<and> \<not> py_le (Fin 0) NaN \<and> \<not> py_le NaN (Fin 10)"
proof -
  have "fl64 (of_int (2 ^ 53 + 1)) = Fin (2 ^ 53)"
    by (simp only: fl64_def Let_def rnd64_tie) simp
  then have "clip_value (PyInt (2 ^ 53 + 1)) (PyInt 0) (PyInt (10 ^ 17)) = Inr (Fin (2 ^ 53))"
    by (simp add: clip_value_def np_clip_def then_do_def py_float_def)
  moreover have "clip_value (PyFloat NaN) (PyInt 0) (PyInt 10) = Inr NaN"
    using clip_value_float_int_bounds [of 0 10 NaN] by (simp add: np_maximum_def np_minimum_def)
  ultimately show ?thesis by (simp add: py_le_def)
qed

text \<open>
  C9, amended. For every float \<open>v\<close> other than NaN and bounds \<open>lo \<le> hi\<close> that are
  floats other than NaN, or ints of magnitude at most \<open>2\<^sup>5\<^sup>3\<close>, \<^verbatim>\<open>clip_value\<close>
  returns without raising; the result is \<open>max lo (min v hi)\<close>, lies in \<open>[lo, hi]\<close>,
  is \<open>v\<close> when \<open>v\<close> is in \<open>[lo, hi]\<close>, and clipping it again returns it. For an int
  \<open>v\<close> and such int bounds the same holds, the result being the float equal to the
  integer \<open>max lo (min v hi)\<close>.
\<close>

theorem clip_value_contract:
  "(a \<le> b \<longrightarrow>
      clip_value (PyFloat (Fin x)) (PyFloat (Fin a)) (PyFloat (Fin b))
        = Inr (Fin (max a (min x b))))
   \<and> (v \<noteq> NaN \<and> lo \<noteq> NaN \<and> hi \<noteq> NaN \<and> py_le lo hi \<longrightarrow>
      (\<exists>r. clip_value (PyFloat v) (PyFloat lo) (PyFloat hi) = Inr r
         \<and> r = np_maximum lo (np_minimum v hi)
         \<and> py_le lo r \<and> py_le r hi
         \<and> (py_le lo v \<and> py_le v hi \<longrightarrow> r = v)
         \<and> clip_value (PyFloat r) (PyFloat lo) (PyFloat hi) = Inr r))
   \<and> (v \<noteq> NaN \<and> ilo \<le> ihi \<and> \<bar>ilo\<bar> \<le> 2 ^ 53 \<and> \<bar>ihi\<bar> \<le> 2 ^ 53 \<longrightarrow>
      (\<exists>r. clip_value (PyFloat v) (PyInt ilo) (PyInt ihi) = Inr r
         \<and> r = np_maximum (Fin (of_int ilo)) (np_minimum v (Fin (of_int ihi)))
         \<and> py_le (Fin (of_int ilo)) r \<and> py_le r (Fin (of_int ihi))
         \<and> (py_le (Fin (of_int ilo)) v \<and> py_le v (Fin (of_int ihi)) \<longrightarrow> r = v)
         \<and> clip_value (PyFloat r) (PyInt ilo) (PyInt ihi) = Inr r))
   \<and> (ilo \<le> ihi \<and> \<bar>ilo\<bar> \<le> 2 ^ 53 \<and> \<bar>ihi\<bar> \<le> 2 ^ 53 \<longrightarrow>
      (\<exists>r. clip_value (PyInt n) (PyInt ilo) (PyInt ihi) = Inr (Fin (of_int r))
         \<and> r = max ilo (min n ihi)
         \<and> ilo \<le> r \<and> r \<le> ihi
         \<and> (ilo \<le> n \<and> n \<le> ihi \<longrightarrow> r = n)
         \<and> clip_value (PyFloat (Fin (of_int r))) (PyInt ilo) (PyInt ihi) = Inr (Fin (of_int r))))"
proof (intro conjI impI)
  assume "a \<le> b"
  then show "clip_value (PyFloat (Fin x)) (PyFloat (Fin a)) (PyFloat (Fin b))
        = Inr (Fin (max a (min x b)))"
    by (simp add: clip_value_floats min_def max_def)
next
  assume a: "v \<noteq> NaN \<and> lo \<noteq> NaN \<and> hi \<noteq> NaN \<and> py_le lo hi"
  then have a': "v \<noteq> NaN" "lo \<noteq> NaN" "hi \<noteq> NaN" "py_le lo hi" by simp_all
  note g = clip_floats_general [OF a']
  show "\<exists>r. clip_value (PyFloat v) (PyFloat lo) (PyFloat hi) = Inr r
         \<and> r = np_maximum lo (np_minimum v hi)
         \<and> py_le lo r \<and> py_le r hi
         \<and> (py_le lo v \<and> py_le v hi \<longrightarrow> r = v)
         \<and> clip_value (PyFloat r) (PyFloat lo) (PyFloat hi) = Inr r"
    using g by (intro exI [of _ "np_minimum hi (np_maximum v lo)"])
      (simp add: clip_value_two_floats)
next
  assume a: "v \<noteq> NaN \<and> ilo \<le> ihi \<and> \<bar>ilo\<bar> \<le> 2 ^ 53 \<and> \<bar>ihi\<bar> \<le> 2 ^ 53"
  then have b: "\<bar>ilo\<bar> \<le> 2 ^ 53" "\<bar>ihi\<bar> \<le> 2 ^ 53" by simp_all
  from a have a': "v \<noteq> NaN" "Fin (of_int ilo) \<noteq> NaN" "Fin (of_int ihi) \<noteq> NaN"
    "py_le (Fin (of_int ilo)) (Fin (of_int ihi))" by (auto simp add: py_le_def)
  note g = clip_floats_general [OF a']
  show "\<exists>r. clip_value (PyFloat v) (PyInt ilo) (PyInt ihi) = Inr r
         \<and> r = np_maximum (Fin (of_int ilo)) (np_minimum v (Fin (of_int ihi)))
         \<and> py_le (Fin (of_int ilo)) r \<and> py_le r (Fin (of_int ihi))
         \<and> (py_le (Fin (of_int ilo)) v \<and> py_le v (Fin (of_int ihi)) \<longrightarrow> r = v)
         \<and> clip_value (PyFloat r) (PyInt ilo) (PyInt ihi) = Inr r"
    using g
    by (intro exI [of _ "np_minimum (Fin (of_int ihi)) (np_maximum v (Fin (of_int ilo)))"])
      (simp add: clip_value_float_int_bounds [OF b])
next
  assume a: "ilo \<le> ihi \<and> \<bar>ilo\<bar> \<le> 2 ^ 53 \<and> \<bar>ihi\<bar> \<le> 2 ^ 53"
  define r where "r = max ilo (min n ihi)"
  from a have r: "ilo \<le> r" "r \<le> ihi" "min ihi (max n ilo) = r"
    by (auto simp add: r_def min_def max_def)
  with a have rb: "\<bar>r\<bar> \<le> 2 ^ 53" by linarith
  have 1: "clip_value (PyInt n) (PyInt ilo) (PyInt ihi) = Inr (Fin (of_int r))"
    using clip_value_ints [of ihi n ilo] rb r(3) by simp
  have 2: "clip_value (PyFloat (Fin (of_int r))) (PyInt ilo) (PyInt ihi) = Inr (Fin (of_int r))"
    using a r(1,2) clip_value_float_ints [of ilo ihi "of_int r"] by (simp add: min_def max_def)
  show "\<exists>r. clip_value (PyInt n) (PyInt ilo) (PyInt ihi) = Inr (Fin (of_int r))
         \<and> r = max ilo (min n ihi)
         \<and> ilo \<le> r \<and> r \<le> ihi
         \<and> (ilo \<le> n \<and> n \<le> ihi \<longrightarrow> r = n)
         \<and> clip_value (PyFloat (Fin (of_int r))) (PyInt ilo) (PyInt ihi) = Inr (Fin (of_int r))"
    using 1 2 r(1,2) by (intro exI [of _ r]) (auto simp add: r_def)
qed

theorem clip_value_contract_witness:
  "(0::real) \<le> 10
   \<and> clip_value (PyFloat (Fin 15)) (PyFloat (Fin 0)) (PyFloat (Fin 10)) = Inr (Fin 10)
   \<and> py_le (Fin 0) (Fin 10) \<and> py_le (Fin 0) (Fin 5) \<and> py_le (Fin 5) (Fin 10)
   \<and> clip_value (PyFloat (Fin 5)) (PyFloat (Fin 0)) (PyFloat (Fin 10)) = Inr (Fin 5)
   \<and> clip_value (PyFloat (Fin 5)) (PyInt 0) (PyInt 10) = Inr (Fin 5)
   \<and> clip_value (PyInt 5) (PyInt 0) (PyInt 10) = Inr (Fin 5)"
proof -
  have h: "py_le (Fin 0) (Fin 10)" "py_le (Fin 0) (Fin 5)" "py_le (Fin 5) (Fin 10)"
    by (simp_all add: py_le_def)
  from clip_value_contract
    [where x = 15 and a = 0 and b = 10 and v = "Fin 5" and lo = "Fin 0" and hi = "Fin 10"
       and ilo = 0 and ihi = 10 and n = 5] h
  show ?thesis by auto
qed

text \<open>
  C10. The bucketizer is defined on every real number, not only on \<open>[0, 1]\<close>: its
  result is always one of the three tiers, it is the low tier for every \<open>p < 0.30\<close>,
  negative \<open>p\<close> included, and the high tier for every \<open>p \<ge> 0.60\<close>, \<open>p > 1\<close>
  included. The function has no error result.
\<close>

theorem risk_level_from_prob_any_real:
  "fst (risk_level_from_prob p) \<in> {tier_low, tier_medium, tier_high}
   \<and> (p < 30 / 100 \<longrightarrow> fst (risk_level_from_prob p) = tier_low)
   \<and> (p < 0 \<longrightarrow> fst (risk_level_from_prob p) = tier_low)
   \<and> (60 / 100 \<le> p \<longrightarrow> fst (risk_level_from_prob p) = tier_high)
   \<and> (1 < p \<longrightarrow> fst (risk_level_from_prob p) = tier_high)"
  by (simp add: risk_level_from_prob_def)

theorem risk_level_from_prob_any_real_witness:
  "(- 5 :: real) < 0 \<and> (- 5 :: real) < 30 / 100 \<and> fst (risk_level_from_prob (- 5)) = tier_low
   \<and> (1 :: real) < 7 \<and> (60 / 100 :: real) \<le> 7 \<and> fst (risk_level_from_prob 7) = tier_high"
  using risk_level_from_prob_any_real [of "- 5"] risk_level_from_prob_any_real [of 7]
  by simp

end
